theory Spec2Isabelle
  imports Main
begin

section \<open>Package database: the radix v4 client factory\<close>

text \<open>
  A shallow embedding of package \<open>database\<close> (the second half of
  \<^verbatim>\<open>src/api/routes/shorten.go\<close>): the constants, \<open>ClientOptions\<close>, \<open>NewClient\<close>,
  \<open>createTLSConfig\<close>, \<open>Close\<close> and \<open>Do\<close>.

  The package talks to the outside through library calls only: \<open>os.ReadFile\<close>,
  \<open>x509.CertPool.AppendCertsFromPEM\<close>, \<open>tls.LoadX509KeyPair\<close>, \<open>net.SplitHostPort\<close>,
  \<open>radix.PoolConfig.New\<close> and the pool's \<open>Do\<close> and \<open>Close\<close>. None of them is code of
  the repository, so each is a field of an environment record \<open>env\<close>, and every theorem
  holds for every environment. Each call with an effect is appended, with the answer it
  got, to a trace of events that the functions pass along; the answer of a call may
  depend on the whole trace before it.
\<close>

subsection \<open>Durations and the package constants\<close>

text \<open>\<open>time.Duration\<close> counts nanoseconds in an int64; the package only builds it from
  small constants, far from the ends of the range.\<close>

type_synonym Duration = int

definition Millisecond :: Duration where
  "Millisecond = 1000000"

definition Second :: Duration where
  "Second = 1000 * Millisecond"

definition PingInterval :: Duration where
  "PingInterval = -1"

definition MinReconnectInterval :: Duration where
  "MinReconnectInterval = 125 * Millisecond"

definition MaxReconnectInterval :: Duration where
  "MaxReconnectInterval = 4 * Second"

definition PoolSize :: int where
  "PoolSize = 1"

subsection \<open>Errors\<close>

text \<open>
  Three kinds of error values occur: the package's own sentinels made by \<open>errors.New\<close>
  (\<open>errorString\<close>), an error handed back by a library call (\<open>Foreign\<close>, with its
  message), and the result of \<open>fmt.Errorf\<close> with a \<open>%w\<close> verb (\<open>wrapError\<close>: the
  formatted message and the wrapped error).
\<close>

datatype error =
    errorString string
  | Foreign string
  | wrapError string error

fun Error :: "error \<Rightarrow> string" where
  "Error (errorString s) = s"
| "Error (Foreign s) = s"
| "Error (wrapError msg err) = msg"

fun Unwrap :: "error \<Rightarrow> error option" where
  "Unwrap (wrapError msg err) = Some err"
| "Unwrap _ = None"

definition errCACertificate :: error where
  "errCACertificate = errorString ''unable to append the CA certificate''"

definition errTypeAssertion :: error where
  "errTypeAssertion = errorString ''type assertion to *net.Dialer failed''"

subsection \<open>Options, TLS configuration, dialers, pool configuration\<close>

record ClientOptions =
  TLSEnabled :: bool
  CaCert :: string
  ClientCert :: string
  ClientKey :: string
  SubjectCommonName :: string
  ACLEnabled :: bool
  Username :: string
  Password :: string
  DialConnectTimeout :: Duration
  DialWriteTimeout :: Duration
  DialReadTimeout :: Duration

type_synonym bytes = string

datatype x509_Certificate = x509_Certificate bytes

datatype tls_Certificate = tls_Certificate bytes bytes

type_synonym CertPool = "x509_Certificate list"

text \<open>The fields of \<open>tls.Config\<close> that the package touches; a \<open>nil\<close> pool pointer is
  \<open>None\<close>, the zero value of \<open>ServerName\<close> is the empty string.\<close>

record tls_Config =
  RootCAs :: "CertPool option"
  Certificates :: "tls_Certificate list"
  ServerName :: string

record net_Dialer =
  Timeout :: Duration

record tls_Dialer =
  tls_NetDialer :: net_Dialer
  tls_Config :: "tls_Config option"

text \<open>The field \<open>NetDialer\<close> of \<open>radix.Dialer\<close> has an interface type; the two dynamic
  types that the package stores there are \<open>*net.Dialer\<close> and \<open>*tls.Dialer\<close>.\<close>

datatype NetDialer_value =
    net_Dialer_ptr net_Dialer
  | tls_Dialer_ptr tls_Dialer

text \<open>The type assertion \<^verbatim>\<open>dialer.NetDialer.(*net.Dialer)\<close> in its two-result form.\<close>

fun assert_net_Dialer :: "NetDialer_value \<Rightarrow> net_Dialer option" where
  "assert_net_Dialer (net_Dialer_ptr d) = Some d"
| "assert_net_Dialer (tls_Dialer_ptr d) = None"

record Dialer =
  AuthUser :: string
  AuthPass :: string
  NetDialer :: NetDialer_value

record PoolConfig =
  pc_Dialer :: Dialer
  pc_Size :: int
  pc_PingInterval :: Duration
  pc_MinReconnectInterval :: Duration
  pc_MaxReconnectInterval :: Duration

subsection \<open>Contexts, actions, pools and the trace\<close>

text \<open>\<open>context.Background()\<close> is the empty context: it is never cancelled and has no
  deadline. A context derived with a timeout has one.\<close>

datatype Context =
    Background
  | WithTimeout Context Duration

fun hasDeadline :: "Context \<Rightarrow> bool" where
  "hasDeadline Background = False"
| "hasDeadline (WithTimeout parent d) = True"

text \<open>\<^verbatim>\<open>radix.Cmd(rcv, cmd, args...)\<close>: the receiver (\<open>None\<close> for \<open>nil\<close>, else the
  address of the receiving variable), the command and its arguments.\<close>

datatype Action = Cmd "nat option" string "string list"

text \<open>A pool is known by a handle; the factory gives the pool it creates the number of
  events that came before its creation, so that no two pools share a handle.\<close>

type_synonym pool = nat

datatype event =
    ReadFile string "string + bytes"
  | LoadX509KeyPair string string "string + tls_Certificate"
  | PoolNew Context PoolConfig string string "string + pool"
  | PoolDo pool Context Action "string option"
  | PoolClose pool "string option"

type_synonym trace = "event list"

text \<open>
  The library calls. A failing call answers with the message of its error (\<open>Inl\<close> or
  \<open>Some\<close>). \<open>x509_parsePEM\<close> gives the certificates that \<open>AppendCertsFromPEM\<close> finds in
  a file's bytes; \<open>fmt_Action\<close> is the text that the verb \<open>%s\<close> prints for an action.
\<close>

record env =
  os_ReadFile :: "trace \<Rightarrow> string \<Rightarrow> string + bytes"
  x509_parsePEM :: "bytes \<Rightarrow> x509_Certificate list"
  tls_LoadX509KeyPair :: "trace \<Rightarrow> string \<Rightarrow> string \<Rightarrow> string + tls_Certificate"
  net_SplitHostPort :: "string \<Rightarrow> string + (string \<times> string)"
  radix_PoolNew :: "trace \<Rightarrow> Context \<Rightarrow> PoolConfig \<Rightarrow> string \<Rightarrow> string \<Rightarrow> string option"
  radix_Do :: "trace \<Rightarrow> pool \<Rightarrow> Context \<Rightarrow> Action \<Rightarrow> string option"
  radix_Close :: "trace \<Rightarrow> pool \<Rightarrow> string option"
  fmt_Action :: "Action \<Rightarrow> string"

text \<open>\<open>AppendCertsFromPEM\<close> adds the certificates it parses to the pool and reports
  whether it parsed at least one.\<close>

definition AppendCertsFromPEM :: "env \<Rightarrow> CertPool \<Rightarrow> bytes \<Rightarrow> CertPool \<times> bool" where
  "AppendCertsFromPEM E s pemCerts =
     (s @ x509_parsePEM E pemCerts, x509_parsePEM E pemCerts \<noteq> [])"

subsection \<open>The client: \<open>Close\<close> and \<open>Do\<close>\<close>

record Client =
  pool :: pool

definition Close :: "env \<Rightarrow> Client \<Rightarrow> trace \<Rightarrow> error option \<times> trace" where
  "Close E c t =
     (let r = radix_Close E t (pool c);
          t' = t @ [PoolClose (pool c) r]
      in case r of
           Some err \<Rightarrow>
             (Some (wrapError (''failed to close connection, err: '' @ err) (Foreign err)), t')
         | None \<Rightarrow> (None, t'))"

definition Do :: "env \<Rightarrow> Client \<Rightarrow> Action \<Rightarrow> trace \<Rightarrow> error option \<times> trace" where
  "Do E c action t =
     (let r = radix_Do E t (pool c) Background action;
          t' = t @ [PoolDo (pool c) Background action r]
      in case r of
           Some err \<Rightarrow>
             (Some (wrapError (''failed to perform action '' @ fmt_Action E action
                                 @ '', err: '' @ err) (Foreign err)), t')
         | None \<Rightarrow> (None, t'))"

subsection \<open>\<open>createTLSConfig\<close>\<close>

text \<open>The result is Go's pair of a configuration pointer (\<open>None\<close> for \<open>nil\<close>) and an
  error (\<open>None\<close> for \<open>nil\<close>).\<close>

definition createTLSConfig ::
  "env \<Rightarrow> ClientOptions \<Rightarrow> trace \<Rightarrow> (tls_Config option \<times> error option) \<times> trace" where
  "createTLSConfig E opts t =
     (let tlsconfig = \<lparr>RootCAs = None, Certificates = [], ServerName = ''''\<rparr>;
          r = os_ReadFile E t (CaCert opts);
          t1 = t @ [ReadFile (CaCert opts) r]
      in case r of
           Inl err \<Rightarrow>
             ((None, Some (wrapError (''failed to read file from '' @ CaCert opts
                                        @ '', err: '' @ err) (Foreign err))), t1)
         | Inr certBytes \<Rightarrow>
             (let (caCertPool, ok) = AppendCertsFromPEM E [] certBytes
              in if \<not> ok then ((None, Some errCACertificate), t1)
                 else
                   (let tlsconfig = tlsconfig\<lparr>RootCAs := Some caCertPool\<rparr>;
                        k = tls_LoadX509KeyPair E t1 (ClientCert opts) (ClientKey opts);
                        t2 = t1 @ [LoadX509KeyPair (ClientCert opts) (ClientKey opts) k]
                    in case k of
                         Inl err \<Rightarrow>
                           ((Some tlsconfig,
                             Some (wrapError (''failed to read and parse key '' @ ClientKey opts
                                                @ '' from '' @ ClientCert opts
                                                @ '', err: '' @ err) (Foreign err))), t2)
                       | Inr cert \<Rightarrow>
                           (let tlsconfig = tlsconfig\<lparr>Certificates := [cert]\<rparr>;
                                tlsconfig =
                                  (if SubjectCommonName opts \<noteq> ''''
                                   then tlsconfig\<lparr>ServerName := SubjectCommonName opts\<rparr>
                                   else tlsconfig)
                            in ((Some tlsconfig, None), t2)))))"

subsection \<open>\<open>NewClient\<close>\<close>

text \<open>The options literal at the head of \<open>NewClient\<close>.\<close>

definition clientOpts :: ClientOptions where
  "clientOpts =
     \<lparr>TLSEnabled = False, CaCert = '''', ClientCert = '''', ClientKey = '''',
      SubjectCommonName = '''',
      ACLEnabled = False, Username = '''', Password = '''',
      DialConnectTimeout = 10 * Second,
      DialWriteTimeout = 1 * Second,
      DialReadTimeout = 1 * Second\<rparr>"

text \<open>
  The body of \<open>NewClient\<close> below the options literal is \<open>NewClient_body\<close>, with the
  local variable \<open>clientOpts\<close> as its parameter \<open>opts\<close>, so that the two branches
  that test the options can be stated for either value of the flag. It comes in two
  parts: \<open>newDialer\<close> builds the dialer and, when TLS is enabled, wraps it (the source
  down to the end of the TLS branch); \<open>newPool\<close> creates the pool, splits the address
  and runs the administrative commands (the rest of the function). \<open>c.Close()\<close> is
  called for its effect there: its error is dropped.
\<close>

definition newDialer ::
  "env \<Rightarrow> ClientOptions \<Rightarrow> trace \<Rightarrow> (error + Dialer) \<times> trace" where
  "newDialer E opts t =
     (let dialer = \<lparr>AuthUser = Username opts, AuthPass = Password opts,
                    NetDialer = net_Dialer_ptr \<lparr>Timeout = DialConnectTimeout opts\<rparr>\<rparr>
      in if TLSEnabled opts then
           (case createTLSConfig E opts t of
              ((tlsConfig, Some err), t1) \<Rightarrow> (Inl err, t1)
            | ((tlsConfig, None), t1) \<Rightarrow>
                (case assert_net_Dialer (NetDialer dialer) of
                   None \<Rightarrow> (Inl errTypeAssertion, t1)
                 | Some netDialer \<Rightarrow>
                     (Inr (dialer\<lparr>NetDialer :=
                             tls_Dialer_ptr \<lparr>tls_NetDialer = netDialer,
                                             tls_Config = tlsConfig\<rparr>\<rparr>), t1)))
         else (Inr dialer, t))"

text \<open>The two \<^verbatim>\<open>radix.Cmd\<close> actions that \<open>NewClient\<close> builds, and the error that both of
  its \<open>CONFIG SET\<close> failure branches return (the same \<open>fmt.Errorf\<close> call in
  each).\<close>

definition announceCmd :: "string \<Rightarrow> Action" where
  "announceCmd ipAddr = Cmd None ''CONFIG'' [''SET'', ''cluster-announce-ip'', ipAddr]"

definition masterauthCmd :: "string \<Rightarrow> Action" where
  "masterauthCmd password = Cmd None ''CONFIG'' [''SET'', ''masterauth'', password]"

definition configSetErr :: "error \<Rightarrow> error" where
  "configSetErr err =
     wrapError (''failed to CONFIG SET, closing client connection, err:'' @ Error err) err"

text \<open>The pool configuration literal of \<open>NewClient\<close>, as a function of the dialer.\<close>

definition poolCfg :: "Dialer \<Rightarrow> PoolConfig" where
  "poolCfg dialer =
     \<lparr>pc_Dialer = dialer, pc_Size = PoolSize, pc_PingInterval = PingInterval,
      pc_MinReconnectInterval = MinReconnectInterval,
      pc_MaxReconnectInterval = MaxReconnectInterval\<rparr>"

definition newPool ::
  "env \<Rightarrow> ClientOptions \<Rightarrow> string \<Rightarrow> Dialer \<Rightarrow> trace \<Rightarrow> (error + Client) \<times> trace" where
  "newPool E opts addr dialer t1 =
     (case radix_PoolNew E t1 Background (poolCfg dialer) ''tcp'' addr of
        Some err \<Rightarrow>
          (Inl (wrapError (''radix poolCfg.New err: '' @ err) (Foreign err)),
           t1 @ [PoolNew Background (poolCfg dialer) ''tcp'' addr (Inl err)])
      | None \<Rightarrow>
          (let c = \<lparr>pool = length t1\<rparr>;
               t2 = t1 @ [PoolNew Background (poolCfg dialer) ''tcp'' addr (Inr (pool c))]
           in case net_SplitHostPort E addr of
                Inl err \<Rightarrow>
                  (Inl (wrapError (''failed split address, closing client connection, err:''
                                     @ err) (Foreign err)),
                   snd (Close E c t2))
              | Inr (ipAddr, port) \<Rightarrow>
                  (case Do E c (announceCmd ipAddr) t2 of
                     (Some err, t3) \<Rightarrow> (Inl (configSetErr err), snd (Close E c t3))
                   | (None, t3) \<Rightarrow>
                       if ACLEnabled opts then
                         (case Do E c (masterauthCmd (Password opts)) t3 of
                            (Some err, t4) \<Rightarrow> (Inl (configSetErr err), snd (Close E c t4))
                          | (None, t4) \<Rightarrow> (Inr c, t4))
                       else (Inr c, t3))))"

definition NewClient_body ::
  "env \<Rightarrow> ClientOptions \<Rightarrow> string \<Rightarrow> trace \<Rightarrow> (error + Client) \<times> trace" where
  "NewClient_body E opts addr t =
     (case newDialer E opts t of
        (Inl err, t1) \<Rightarrow> (Inl err, t1)
      | (Inr dialer, t1) \<Rightarrow> newPool E opts addr dialer t1)"

definition NewClient :: "env \<Rightarrow> string \<Rightarrow> trace \<Rightarrow> (error + Client) \<times> trace" where
  "NewClient E addr t = NewClient_body E clientOpts addr t"

subsection \<open>Reading the trace\<close>

text \<open>What a trace holds, by kind of event: the actions handed to a pool, those among
  them that failed, the pools created, the pools closed, the connection attempts and
  the reads of TLS material.\<close>

fun actionOf :: "event \<Rightarrow> Action list" where
  "actionOf (PoolDo p ctx a r) = [a]"
| "actionOf _ = []"

fun failureOf :: "event \<Rightarrow> Action list" where
  "failureOf (PoolDo p ctx a (Some err)) = [a]"
| "failureOf _ = []"

fun createdOf :: "event \<Rightarrow> pool list" where
  "createdOf (PoolNew ctx cfg network addr (Inr p)) = [p]"
| "createdOf _ = []"

fun closedOf :: "event \<Rightarrow> pool list" where
  "closedOf (PoolClose p r) = [p]"
| "closedOf _ = []"

fun dialOf :: "event \<Rightarrow> (PoolConfig \<times> string \<times> string) list" where
  "dialOf (PoolNew ctx cfg network addr r) = [(cfg, network, addr)]"
| "dialOf _ = []"

fun fileOf :: "event \<Rightarrow> string list" where
  "fileOf (ReadFile path r) = [path]"
| "fileOf (LoadX509KeyPair certFile keyFile r) = [certFile, keyFile]"
| "fileOf _ = []"

text \<open>Whether an event ran under a context with a deadline; only a pool's \<open>Do\<close> takes
  a context for the operation itself.\<close>

fun boundedOf :: "event \<Rightarrow> bool" where
  "boundedOf (PoolDo p ctx a r) = hasDeadline ctx"
| "boundedOf _ = True"

definition commands :: "trace \<Rightarrow> Action list" where
  "commands t = concat (map actionOf t)"

definition failures :: "trace \<Rightarrow> Action list" where
  "failures t = concat (map failureOf t)"

definition created :: "trace \<Rightarrow> pool list" where
  "created t = concat (map createdOf t)"

definition closed :: "trace \<Rightarrow> pool list" where
  "closed t = concat (map closedOf t)"

definition dials :: "trace \<Rightarrow> (PoolConfig \<times> string \<times> string) list" where
  "dials t = concat (map dialOf t)"

definition fileReads :: "trace \<Rightarrow> string list" where
  "fileReads t = concat (map fileOf t)"

subsection \<open>A stub environment\<close>

text \<open>
  A test double for the library calls, used to run the functions on concrete inputs:
  a file system given as a function, a PEM parser that finds one certificate exactly in
  the bytes \<open>''PEM''\<close>, an address splitter that cuts at the first colon, a pool that
  is always created and closed without error, and whose \<open>Do\<close> fails on the actions
  that \<open>failing\<close> gives a message for.
\<close>

definition stubSplit :: "string \<Rightarrow> string + (string \<times> string)" where
  "stubSplit addr =
     (if CHR '':'' \<in> set addr
      then Inr (takeWhile (\<lambda>c. c \<noteq> CHR '':'') addr,
                tl (dropWhile (\<lambda>c. c \<noteq> CHR '':'') addr))
      else Inl ''missing port in address'')"

definition stubEnv :: "(string \<Rightarrow> string + bytes) \<Rightarrow> (Action \<Rightarrow> string option) \<Rightarrow> env" where
  "stubEnv files failing =
     \<lparr>os_ReadFile = (\<lambda>t path. files path),
      x509_parsePEM = (\<lambda>b. if b = ''PEM'' then [x509_Certificate b] else []),
      tls_LoadX509KeyPair =
        (\<lambda>t certFile keyFile.
           case files certFile of
             Inl err \<Rightarrow> Inl err
           | Inr c \<Rightarrow> (case files keyFile of
                         Inl err \<Rightarrow> Inl err
                       | Inr k \<Rightarrow> Inr (tls_Certificate c k))),
      net_SplitHostPort = stubSplit,
      radix_PoolNew = (\<lambda>t ctx cfg network addr. None),
      radix_Do = (\<lambda>t p ctx action. failing action),
      radix_Close = (\<lambda>t p. None),
      fmt_Action = (\<lambda>action. case action of Cmd rcv cmd args \<Rightarrow> cmd)\<rparr>"

definition noFiles :: "string \<Rightarrow> string + bytes" where
  "noFiles path = Inl ''no such file or directory''"

definition tlsFiles :: "string \<Rightarrow> string + bytes" where
  "tlsFiles path =
     (if path = ''ca.pem'' then Inr ''PEM''
      else if path = ''junk.pem'' then Inr ''junk''
      else if path = ''client.crt'' then Inr ''CRT''
      else if path = ''client.key'' then Inr ''KEY''
      else Inl ''no such file or directory'')"

text \<open>Options with TLS enabled, over the files of \<open>tlsFiles\<close>.\<close>

definition tlsOpts :: ClientOptions where
  "tlsOpts =
     clientOpts\<lparr>TLSEnabled := True, CaCert := ''ca.pem'', ClientCert := ''client.crt'',
                ClientKey := ''client.key'', SubjectCommonName := ''store.internal''\<rparr>"

definition neverFails :: "Action \<Rightarrow> string option" where
  "neverFails action = None"

definition alwaysFails :: "Action \<Rightarrow> string option" where
  "alwaysFails action = Some ''EOF''"

definition masterauthFails :: "Action \<Rightarrow> string option" where
  "masterauthFails action =
     (case action of
        Cmd rcv cmd args \<Rightarrow> if ''masterauth'' \<in> set args then Some ''ERR denied'' else None)"

section \<open>Properties\<close>

subsection \<open>Reading traces, and the two parts of \<open>NewClient\<close>\<close>

lemma commands_simps:
  "commands [] = []" "commands (xs @ ys) = commands xs @ commands ys"
  "commands (e # xs) = actionOf e @ commands xs"
  by (simp_all add: commands_def)

lemma failures_simps:
  "failures [] = []" "failures (xs @ ys) = failures xs @ failures ys"
  "failures (e # xs) = failureOf e @ failures xs"
  by (simp_all add: failures_def)

lemma created_simps:
  "created [] = []" "created (xs @ ys) = created xs @ created ys"
  "created (e # xs) = createdOf e @ created xs"
  by (simp_all add: created_def)

lemma closed_simps:
  "closed [] = []" "closed (xs @ ys) = closed xs @ closed ys"
  "closed (e # xs) = closedOf e @ closed xs"
  by (simp_all add: closed_def)

lemma dials_simps:
  "dials [] = []" "dials (xs @ ys) = dials xs @ dials ys"
  "dials (e # xs) = dialOf e @ dials xs"
  by (simp_all add: dials_def)

lemma fileReads_simps:
  "fileReads [] = []" "fileReads (xs @ ys) = fileReads xs @ fileReads ys"
  "fileReads (e # xs) = fileOf e @ fileReads xs"
  by (simp_all add: fileReads_def)

lemmas trace_simps =
  commands_simps failures_simps created_simps closed_simps dials_simps fileReads_simps

lemmas const_defs =
  PoolSize_def PingInterval_def MinReconnectInterval_def MaxReconnectInterval_def
  Second_def Millisecond_def

lemmas stub_defs =
  stubEnv_def stubSplit_def noFiles_def tlsFiles_def tlsOpts_def clientOpts_def
  neverFails_def alwaysFails_def masterauthFails_def

lemma createTLSConfig_trace:
  "\<exists>xs. snd (createTLSConfig E opts t) = t @ xs \<and> commands xs = [] \<and> failures xs = []
        \<and> created xs = [] \<and> closed xs = [] \<and> dials xs = []"
  by (simp add: createTLSConfig_def AppendCertsFromPEM_def Let_def trace_simps split: sum.split)

lemma newDialer_trace:
  "\<exists>xs. snd (newDialer E opts t) = t @ xs \<and> commands xs = [] \<and> failures xs = []
        \<and> created xs = [] \<and> closed xs = [] \<and> dials xs = []"
proof (cases "TLSEnabled opts")
  case False
  then show ?thesis by (simp add: newDialer_def trace_simps)
next
  case True
  obtain cfg err t1 where c: "createTLSConfig E opts t = ((cfg, err), t1)"
    by (metis surj_pair)
  from createTLSConfig_trace [of E opts t] c
  obtain xs where "t1 = t @ xs" "commands xs = []" "failures xs = []"
    "created xs = []" "closed xs = []" "dials xs = []" by auto
  with True c show ?thesis
    by (cases err) (simp_all add: newDialer_def)
qed

lemma newDialer_error:
  "newDialer E opts t = (Inl err, t1) \<Longrightarrow>
   err = errCACertificate \<or> (\<exists>msg m. err = wrapError msg (Foreign m))"
  by (auto simp: newDialer_def createTLSConfig_def AppendCertsFromPEM_def Let_def
      split: if_splits sum.splits)

lemma newPool_rollback:
  assumes "newPool E opts addr d t1 = (r, t')"
  shows "\<exists>ys. t' = t1 @ ys
     \<and> (\<forall>p. created ys = [p] \<and> failures ys \<noteq> [] \<longrightarrow> isl r \<and> closed ys = [p])"
  using assms
  by (auto simp: newPool_def Do_def Close_def Let_def trace_simps
      split: option.splits sum.splits if_splits prod.splits)

lemma newPool_success:
  assumes "newPool E opts addr d t1 = (Inr c, t')"
  shows "\<exists>ys host port. t' = t1 @ ys \<and> net_SplitHostPort E addr = Inr (host, port)
     \<and> created ys = [pool c] \<and> failures ys = [] \<and> closed ys = []
     \<and> commands ys = Cmd None ''CONFIG'' [''SET'', ''cluster-announce-ip'', host]
          # (if ACLEnabled opts then [Cmd None ''CONFIG'' [''SET'', ''masterauth'', Password opts]]
             else [])"
  using assms
  by (auto simp: newPool_def Do_def Close_def Let_def trace_simps announceCmd_def
        masterauthCmd_def
      split: option.splits sum.splits if_splits prod.splits)

lemma newPool_split_failure:
  assumes "net_SplitHostPort E addr = Inl m" and "newPool E opts addr d t1 = (r, t')"
  shows "\<exists>ys. t' = t1 @ ys \<and> commands ys = [] \<and> isl r
     \<and> (\<forall>p. created ys = [p] \<longrightarrow>
           closed ys = [p]
           \<and> r = Inl (wrapError (''failed split address, closing client connection, err:'' @ m)
                       (Foreign m)))"
  using assms
  by (auto simp: newPool_def Close_def Let_def trace_simps split: option.splits)

lemma newPool_dials:
  assumes "newPool E opts addr d t1 = (r, t')"
  shows "\<exists>ys. t' = t1 @ ys \<and> dials ys = [(poolCfg d, ''tcp'', addr)]"
  using assms
  by (auto simp: newPool_def Do_def Close_def Let_def trace_simps
      split: option.splits sum.splits if_splits prod.splits)

lemma newPool_error:
  "newPool E opts addr d t1 = (Inl err, t') \<Longrightarrow> \<exists>msg e. err = wrapError msg e"
  by (auto simp: newPool_def Do_def Close_def Let_def configSetErr_def
      split: option.splits sum.splits if_splits prod.splits)

lemma NewClient_body_cases:
  assumes "NewClient_body E opts addr t = (r, t')"
  obtains (dialer_error) err where "newDialer E opts t = (Inl err, t')" "r = Inl err"
  | (pool) d t1 where "newDialer E opts t = (Inr d, t1)" "newPool E opts addr d t1 = (r, t')"
  using assms
  by (auto simp: NewClient_body_def split: prod.splits sum.splits)

subsection \<open>Rollback after pool creation\<close>

text \<open>
  Claim C1. Whatever \<open>NewClient\<close> does, it only appends events to the trace. If, among
  the events it appends, a pool \<open>p\<close> was created and some action handed to the pool
  failed (the \<open>CONFIG SET cluster-announce-ip\<close> command, or, with ACL enabled, the
  \<open>CONFIG SET masterauth\<close> command), then the result is an error and \<open>p\<close> was closed,
  once. If the result is a client, then its pool is the pool created, every
  administrative command that the options gate was issued (one, or two with ACL
  enabled), none failed, and the pool was not closed. The statement is about the body
  of \<open>NewClient\<close> at every value of its options variable; \<open>NewClient\<close> is the body
  at the options literal (\<open>NewClient_def\<close>).
\<close>

theorem NewClient_rollback:
  assumes "NewClient_body E opts addr t = (r, t')"
  shows "\<exists>new. t' = t @ new
     \<and> (\<forall>p. created new = [p] \<and> failures new \<noteq> [] \<longrightarrow> isl r \<and> closed new = [p])
     \<and> (\<forall>c. r = Inr c \<longrightarrow>
           created new = [pool c] \<and> failures new = [] \<and> closed new = []
           \<and> length (commands new) = (if ACLEnabled opts then 2 else 1))"
  using assms
proof (cases rule: NewClient_body_cases)
  case (dialer_error err)
  with newDialer_trace [of E opts t] show ?thesis by auto
next
  case (pool d t1)
  from newDialer_trace [of E opts t] pool(1)
  obtain xs where xs: "t1 = t @ xs" "commands xs = []" "failures xs = []"
    "created xs = []" "closed xs = []" by auto
  from newPool_rollback [OF pool(2)]
  obtain ys where ys: "t' = t1 @ ys"
    "\<forall>p. created ys = [p] \<and> failures ys \<noteq> [] \<longrightarrow> isl r \<and> closed ys = [p]" by blast
  have succ: "\<forall>c. r = Inr c \<longrightarrow>
           created ys = [pool c] \<and> failures ys = [] \<and> closed ys = []
           \<and> length (commands ys) = (if ACLEnabled opts then 2 else 1)"
  proof (intro allI impI)
    fix c assume "r = Inr c"
    with newPool_success [of E opts addr d t1 c t'] pool(2) ys(1)
    show "created ys = [pool c] \<and> failures ys = [] \<and> closed ys = []
           \<and> length (commands ys) = (if ACLEnabled opts then 2 else 1)"
      by auto
  qed
  have "t' = t @ (xs @ ys)" using xs ys by simp
  moreover have "\<forall>p. created (xs @ ys) = [p] \<and> failures (xs @ ys) \<noteq> [] \<longrightarrow>
      isl r \<and> closed (xs @ ys) = [p]"
    using xs ys(2) by (simp add: trace_simps)
  moreover have "\<forall>c. r = Inr c \<longrightarrow>
           created (xs @ ys) = [pool c] \<and> failures (xs @ ys) = [] \<and> closed (xs @ ys) = []
           \<and> length (commands (xs @ ys)) = (if ACLEnabled opts then 2 else 1)"
    using xs succ by (simp add: trace_simps)
  ultimately show ?thesis by blast
qed

theorem NewClient_rollback_witness:
  "created (snd (NewClient (stubEnv noFiles alwaysFails) ''db:6379'' [])) = [0]
   \<and> failures (snd (NewClient (stubEnv noFiles alwaysFails) ''db:6379'' [])) \<noteq> []
   \<and> isl (fst (NewClient (stubEnv noFiles alwaysFails) ''db:6379'' []))
   \<and> closed (snd (NewClient (stubEnv noFiles alwaysFails) ''db:6379'' [])) = [0]
   \<and> fst (NewClient (stubEnv noFiles neverFails) ''db:6379'' []) = Inr \<lparr>pool = 0\<rparr>
   \<and> created (snd (NewClient (stubEnv noFiles neverFails) ''db:6379'' [])) = [0]
   \<and> failures (snd (NewClient (stubEnv noFiles neverFails) ''db:6379'' [])) = []
   \<and> closed (snd (NewClient (stubEnv noFiles neverFails) ''db:6379'' [])) = []
   \<and> length (commands (snd (NewClient (stubEnv noFiles neverFails) ''db:6379'' []))) = 1"
  using
    NewClient_rollback [of "stubEnv noFiles alwaysFails" clientOpts "''db:6379''" "[]"
      "fst (NewClient (stubEnv noFiles alwaysFails) ''db:6379'' [])"
      "snd (NewClient (stubEnv noFiles alwaysFails) ''db:6379'' [])"]
    NewClient_rollback [of "stubEnv noFiles neverFails" clientOpts "''db:6379''" "[]"
      "fst (NewClient (stubEnv noFiles neverFails) ''db:6379'' [])"
      "snd (NewClient (stubEnv noFiles neverFails) ''db:6379'' [])"]
  by (simp add: NewClient_def NewClient_body_def newDialer_def newPool_def Do_def Close_def
      poolCfg_def announceCmd_def stub_defs trace_simps)

subsection \<open>A malformed address\<close>

text \<open>
  Claim C2. When \<open>net.SplitHostPort\<close> fails on the address, \<open>NewClient\<close> hands no
  action to any pool and returns an error. If a pool was created before (the pool that
  the claim calls already created), that pool is closed, once, and the error returned
  wraps the error of the split, under the message
  \<open>failed split address, closing client connection, err:\<close>. (When the pool could not
  be created, \<open>NewClient\<close> has returned before it splits the address.) Stated for the
  body of \<open>NewClient\<close> at every options value.
\<close>

theorem NewClient_split_failure:
  assumes "net_SplitHostPort E addr = Inl m"
    and "NewClient_body E opts addr t = (r, t')"
  shows "\<exists>new. t' = t @ new \<and> commands new = [] \<and> isl r
     \<and> (\<forall>p. created new = [p] \<longrightarrow>
           closed new = [p]
           \<and> r = Inl (wrapError (''failed split address, closing client connection, err:'' @ m)
                       (Foreign m)))"
  using assms(2)
proof (cases rule: NewClient_body_cases)
  case (dialer_error err)
  with newDialer_trace [of E opts t] show ?thesis by auto
next
  case (pool d t1)
  from newDialer_trace [of E opts t] pool(1)
  obtain xs where xs: "t1 = t @ xs" "commands xs = []" "created xs = []" "closed xs = []"
    by auto
  from newPool_split_failure [OF assms(1) pool(2)]
  obtain ys where ys: "t' = t1 @ ys" "commands ys = []" "isl r"
    "\<forall>p. created ys = [p] \<longrightarrow>
           closed ys = [p]
           \<and> r = Inl (wrapError (''failed split address, closing client connection, err:'' @ m)
                       (Foreign m))" by blast
  have "t' = t @ (xs @ ys)" using xs ys by simp
  moreover have "commands (xs @ ys) = []" using xs ys by (simp add: trace_simps)
  moreover have "\<forall>p. created (xs @ ys) = [p] \<longrightarrow>
           closed (xs @ ys) = [p]
           \<and> r = Inl (wrapError (''failed split address, closing client connection, err:'' @ m)
                       (Foreign m))"
    using xs ys(4) by (simp add: trace_simps)
  ultimately show ?thesis using ys(3) by blast
qed

theorem NewClient_split_failure_witness:
  "net_SplitHostPort (stubEnv noFiles neverFails) ''not-an-address'' = Inl ''missing port in address''
   \<and> NewClient (stubEnv noFiles neverFails) ''not-an-address'' []
     = (Inl (wrapError
              ''failed split address, closing client connection, err:missing port in address''
              (Foreign ''missing port in address'')),
        [PoolNew Background
           (poolCfg \<lparr>AuthUser = '''', AuthPass = '''',
                     NetDialer = net_Dialer_ptr \<lparr>Timeout = 10000000000\<rparr>\<rparr>)
           ''tcp'' ''not-an-address'' (Inr 0),
         PoolClose 0 None])
   \<and> created (snd (NewClient (stubEnv noFiles neverFails) ''not-an-address'' [])) = [0]
   \<and> closed (snd (NewClient (stubEnv noFiles neverFails) ''not-an-address'' [])) = [0]
   \<and> commands (snd (NewClient (stubEnv noFiles neverFails) ''not-an-address'' [])) = []"
  using
    NewClient_split_failure [of "stubEnv noFiles neverFails" "''not-an-address''"
      "''missing port in address''" clientOpts "[]"
      "fst (NewClient (stubEnv noFiles neverFails) ''not-an-address'' [])"
      "snd (NewClient (stubEnv noFiles neverFails) ''not-an-address'' [])"]
  by (simp add: NewClient_def NewClient_body_def newDialer_def newPool_def Close_def
      stub_defs trace_simps const_defs)

subsection \<open>The options of the public factory\<close>

lemma NewClient_public:
  "NewClient E addr t =
     newPool E clientOpts addr
       \<lparr>AuthUser = '''', AuthPass = '''',
        NetDialer = net_Dialer_ptr \<lparr>Timeout = 10000000000\<rparr>\<rparr> t"
  by (simp add: NewClient_def NewClient_body_def newDialer_def clientOpts_def const_defs)

lemma newPool_files:
  "\<exists>ys. snd (newPool E opts addr d t1) = t1 @ ys \<and> fileReads ys = []
     \<and> (\<not> ACLEnabled opts \<longrightarrow>
          (\<forall>pw. Cmd None ''CONFIG'' [''SET'', ''masterauth'', pw] \<notin> set (commands ys)))"
  by (auto simp: newPool_def Do_def Close_def Let_def trace_simps announceCmd_def
      split: option.splits sum.splits if_splits prod.splits)

lemma Do_env:
  "Do (E\<lparr>os_ReadFile := rf, x509_parsePEM := pp, tls_LoadX509KeyPair := kp\<rparr>) c action t
     = Do E c action t"
  by (simp add: Do_def Let_def split: option.split)

lemma Close_env:
  "Close (E\<lparr>os_ReadFile := rf, x509_parsePEM := pp, tls_LoadX509KeyPair := kp\<rparr>) c t
     = Close E c t"
  by (simp add: Close_def Let_def split: option.split)

lemma newPool_env:
  "newPool (E\<lparr>os_ReadFile := rf, x509_parsePEM := pp, tls_LoadX509KeyPair := kp\<rparr>) opts addr d t1
     = newPool E opts addr d t1"
  by (simp add: newPool_def Do_env Close_env Let_def
      split: option.split sum.split prod.split)

text \<open>
  Claim C3. \<open>NewClient\<close> takes an address only and builds its options itself: TLS and
  ACL disabled, empty paths and credentials, a connect timeout of 10 s and write and
  read timeouts of 1 s (in nanoseconds below). With these options the dialer is the
  plain \<open>*net.Dialer\<close> and the TLS branch is not entered: no file is read. No
  \<open>CONFIG SET masterauth\<close> command is issued, whatever the password. The result does
  not change when the file system, the PEM parser and the key pair loader of the
  environment are replaced by any others.
\<close>

theorem NewClient_fixed_options:
  "clientOpts =
     \<lparr>TLSEnabled = False, CaCert = '''', ClientCert = '''', ClientKey = '''',
      SubjectCommonName = '''', ACLEnabled = False, Username = '''', Password = '''',
      DialConnectTimeout = 10000000000, DialWriteTimeout = 1000000000,
      DialReadTimeout = 1000000000\<rparr>
   \<and> NewClient E addr t = NewClient_body E clientOpts addr t
   \<and> newDialer E clientOpts t =
       (Inr \<lparr>AuthUser = '''', AuthPass = '''',
             NetDialer = net_Dialer_ptr \<lparr>Timeout = 10000000000\<rparr>\<rparr>, t)
   \<and> (\<exists>new. snd (NewClient E addr t) = t @ new \<and> fileReads new = []
          \<and> (\<forall>pw. Cmd None ''CONFIG'' [''SET'', ''masterauth'', pw] \<notin> set (commands new)))
   \<and> NewClient (E\<lparr>os_ReadFile := rf, x509_parsePEM := pp, tls_LoadX509KeyPair := kp\<rparr>) addr t
       = NewClient E addr t"
proof -
  have "\<not> ACLEnabled clientOpts" by (simp add: clientOpts_def)
  with newPool_files [of E clientOpts addr _ t]
  have "\<exists>new. snd (NewClient E addr t) = t @ new \<and> fileReads new = []
          \<and> (\<forall>pw. Cmd None ''CONFIG'' [''SET'', ''masterauth'', pw] \<notin> set (commands new))"
    unfolding NewClient_public by blast
  moreover have "NewClient (E\<lparr>os_ReadFile := rf, x509_parsePEM := pp,
                     tls_LoadX509KeyPair := kp\<rparr>) addr t = NewClient E addr t"
    unfolding NewClient_public by (rule newPool_env)
  moreover have "newDialer E clientOpts t =
       (Inr \<lparr>AuthUser = '''', AuthPass = '''',
             NetDialer = net_Dialer_ptr \<lparr>Timeout = 10000000000\<rparr>\<rparr>, t)"
    by (simp add: newDialer_def clientOpts_def const_defs)
  moreover have "clientOpts =
     \<lparr>TLSEnabled = False, CaCert = '''', ClientCert = '''', ClientKey = '''',
      SubjectCommonName = '''', ACLEnabled = False, Username = '''', Password = '''',
      DialConnectTimeout = 10000000000, DialWriteTimeout = 1000000000,
      DialReadTimeout = 1000000000\<rparr>"
    by (simp add: clientOpts_def const_defs)
  ultimately show ?thesis by (simp add: NewClient_def)
qed

theorem NewClient_fixed_options_witness:
  "fileReads (snd (NewClient (stubEnv tlsFiles neverFails) ''db:6379'' [])) = []
   \<and> commands (snd (NewClient (stubEnv tlsFiles neverFails) ''db:6379'' []))
       = [Cmd None ''CONFIG'' [''SET'', ''cluster-announce-ip'', ''db'']]
   \<and> NewClient (stubEnv tlsFiles neverFails) ''db:6379'' []
       = NewClient (stubEnv noFiles neverFails) ''db:6379'' []"
  using
    NewClient_fixed_options [of "stubEnv tlsFiles neverFails" "''db:6379''" "[]"]
  by (simp add: NewClient_def NewClient_body_def newDialer_def newPool_def Do_def
      announceCmd_def stub_defs trace_simps const_defs)

subsection \<open>A CA file without certificates\<close>

text \<open>
  Claim C4. With TLS enabled, when the CA file is read and no certificate is parsed from
  it, the body of \<open>NewClient\<close> returns the sentinel \<open>errCACertificate\<close>, with the
  message \<open>unable to append the CA certificate\<close>, and the only event is the read of
  the file: no connection is attempted. When the file cannot be read, the error is a
  different value: a wrapper whose message holds the path of the file. (Through
  \<open>NewClient\<close> itself TLS is never enabled; the statement is about the body at options
  that enable it.)
\<close>

theorem NewClient_untrusted_CA:
  assumes "TLSEnabled opts"
  shows "(os_ReadFile E t (CaCert opts) = Inr b \<and> x509_parsePEM E b = [] \<longrightarrow>
            NewClient_body E opts addr t
              = (Inl errCACertificate, t @ [ReadFile (CaCert opts) (Inr b)])
            \<and> dials [ReadFile (CaCert opts) (Inr b)] = []
            \<and> Error errCACertificate = ''unable to append the CA certificate'')
       \<and> (os_ReadFile E t (CaCert opts) = Inl m \<longrightarrow>
            NewClient_body E opts addr t
              = (Inl (wrapError (''failed to read file from '' @ CaCert opts @ '', err: '' @ m)
                        (Foreign m)),
                 t @ [ReadFile (CaCert opts) (Inl m)])
            \<and> errCACertificate
                \<noteq> wrapError (''failed to read file from '' @ CaCert opts @ '', err: '' @ m)
                     (Foreign m))"
  using assms
  by (simp add: NewClient_body_def newDialer_def createTLSConfig_def AppendCertsFromPEM_def
      Let_def trace_simps errCACertificate_def)

theorem NewClient_untrusted_CA_witness:
  "NewClient_body (stubEnv tlsFiles neverFails) (tlsOpts\<lparr>CaCert := ''junk.pem''\<rparr>) ''db:6379'' []
     = (Inl errCACertificate, [ReadFile ''junk.pem'' (Inr ''junk'')])
   \<and> NewClient_body (stubEnv noFiles neverFails) tlsOpts ''db:6379'' []
     = (Inl (wrapError ''failed to read file from ca.pem, err: no such file or directory''
               (Foreign ''no such file or directory'')),
        [ReadFile ''ca.pem'' (Inl ''no such file or directory'')])"
  using
    NewClient_untrusted_CA [of "tlsOpts\<lparr>CaCert := ''junk.pem''\<rparr>" "stubEnv tlsFiles neverFails"
      "[]" "''junk''" "''db:6379''"]
    NewClient_untrusted_CA [of tlsOpts "stubEnv noFiles neverFails"
      "[]" _ "''db:6379''" "''no such file or directory''"]
  by (simp add: stub_defs)

subsection \<open>The pool configuration\<close>

text \<open>
  Claim C5. Every pool configuration that \<open>NewClient\<close> hands to \<open>poolCfg.New\<close> has
  size 1, ping interval \<open>-1\<close> (the value that disables pinging), a minimum reconnect
  interval of 125 ms and a maximum of 4 s (in nanoseconds below), for the network
  \<open>tcp\<close> and the address given; and there is one such call whenever a pool is
  created. Stated for the body of \<open>NewClient\<close> at every options value.
\<close>

theorem NewClient_pool_config:
  assumes "NewClient_body E opts addr t = (r, t')"
  shows "\<exists>new. t' = t @ new
     \<and> (\<forall>cfg network a. (cfg, network, a) \<in> set (dials new) \<longrightarrow>
           pc_Size cfg = 1 \<and> pc_PingInterval cfg = - 1
           \<and> pc_MinReconnectInterval cfg = 125000000
           \<and> pc_MaxReconnectInterval cfg = 4000000000
           \<and> network = ''tcp'' \<and> a = addr)
     \<and> (\<forall>p. created new = [p] \<longrightarrow> length (dials new) = 1)"
  using assms
proof (cases rule: NewClient_body_cases)
  case (dialer_error err)
  with newDialer_trace [of E opts t] show ?thesis by auto
next
  case (pool d t1)
  from newDialer_trace [of E opts t] pool(1)
  obtain xs where xs: "t1 = t @ xs" "dials xs = []" by auto
  from newPool_dials [OF pool(2)]
  obtain ys where ys: "t' = t1 @ ys" "dials ys = [(poolCfg d, ''tcp'', addr)]" by blast
  have "t' = t @ (xs @ ys)" using xs ys by simp
  moreover have "dials (xs @ ys) = [(poolCfg d, ''tcp'', addr)]"
    using xs ys by (simp add: trace_simps)
  ultimately show ?thesis
    by (intro exI [of _ "xs @ ys"]) (simp add: poolCfg_def const_defs)
qed

theorem NewClient_pool_config_witness:
  "dials (snd (NewClient (stubEnv noFiles neverFails) ''db:6379'' []))
     = [(\<lparr>pc_Dialer = \<lparr>AuthUser = '''', AuthPass = '''',
                        NetDialer = net_Dialer_ptr \<lparr>Timeout = 10000000000\<rparr>\<rparr>,
          pc_Size = 1, pc_PingInterval = - 1, pc_MinReconnectInterval = 125000000,
          pc_MaxReconnectInterval = 4000000000\<rparr>, ''tcp'', ''db:6379'')]
   \<and> created (snd (NewClient (stubEnv noFiles neverFails) ''db:6379'' [])) = [0]"
  using
    NewClient_pool_config [of "stubEnv noFiles neverFails" clientOpts "''db:6379''" "[]"
      "fst (NewClient (stubEnv noFiles neverFails) ''db:6379'' [])"
      "snd (NewClient (stubEnv noFiles neverFails) ''db:6379'' [])"]
  by (simp add: NewClient_def NewClient_body_def newDialer_def newPool_def Do_def
      poolCfg_def announceCmd_def stub_defs trace_simps const_defs)

subsection \<open>The administrative commands of a successful run\<close>

text \<open>
  Claim C6. When \<open>NewClient\<close> returns a client, the address was split into a host and
  a port, and the actions handed to the pool are, in this order, \<open>CONFIG SET
  cluster-announce-ip host\<close> and then, if and only if ACL is enabled, \<open>CONFIG SET
  masterauth password\<close> with the password of the options; none of them failed. Stated
  for the body of \<open>NewClient\<close> at every options value.
\<close>

theorem NewClient_commands:
  assumes "NewClient_body E opts addr t = (Inr c, t')"
  shows "\<exists>new host port. t' = t @ new \<and> net_SplitHostPort E addr = Inr (host, port)
     \<and> failures new = []
     \<and> commands new = Cmd None ''CONFIG'' [''SET'', ''cluster-announce-ip'', host]
          # (if ACLEnabled opts
             then [Cmd None ''CONFIG'' [''SET'', ''masterauth'', Password opts]]
             else [])"
  using assms
proof (cases rule: NewClient_body_cases)
  case (dialer_error err)
  then show ?thesis by simp
next
  case (pool d t1)
  from newDialer_trace [of E opts t] pool(1)
  obtain xs where xs: "t1 = t @ xs" "commands xs = []" "failures xs = []" by auto
  from newPool_success [OF pool(2)]
  obtain ys host port where ys: "t' = t1 @ ys" "net_SplitHostPort E addr = Inr (host, port)"
    "failures ys = []"
    "commands ys = Cmd None ''CONFIG'' [''SET'', ''cluster-announce-ip'', host]
          # (if ACLEnabled opts
             then [Cmd None ''CONFIG'' [''SET'', ''masterauth'', Password opts]]
             else [])" by blast
  have "t' = t @ (xs @ ys)" using xs ys by simp
  moreover have "failures (xs @ ys) = []" using xs ys by (simp add: trace_simps)
  moreover have "commands (xs @ ys) = Cmd None ''CONFIG'' [''SET'', ''cluster-announce-ip'', host]
          # (if ACLEnabled opts
             then [Cmd None ''CONFIG'' [''SET'', ''masterauth'', Password opts]]
             else [])" using xs ys by (simp add: trace_simps)
  ultimately show ?thesis using ys(2) by blast
qed

theorem NewClient_commands_witness:
  "NewClient (stubEnv noFiles neverFails) ''db:6379'' []
     = (Inr \<lparr>pool = 0\<rparr>,
        [PoolNew Background
           (poolCfg \<lparr>AuthUser = '''', AuthPass = '''',
                     NetDialer = net_Dialer_ptr \<lparr>Timeout = 10000000000\<rparr>\<rparr>)
           ''tcp'' ''db:6379'' (Inr 0),
         PoolDo 0 Background (Cmd None ''CONFIG'' [''SET'', ''cluster-announce-ip'', ''db''])
           None])
   \<and> commands (snd (NewClient_body (stubEnv noFiles neverFails)
                      (clientOpts\<lparr>ACLEnabled := True, Password := ''s3cret''\<rparr>) ''db:6379'' []))
     = [Cmd None ''CONFIG'' [''SET'', ''cluster-announce-ip'', ''db''],
        Cmd None ''CONFIG'' [''SET'', ''masterauth'', ''s3cret'']]"
  using
    NewClient_commands [of "stubEnv noFiles neverFails" clientOpts "''db:6379''" "[]"
      "\<lparr>pool = 0\<rparr>"
      "snd (NewClient (stubEnv noFiles neverFails) ''db:6379'' [])"]
    NewClient_commands [of "stubEnv noFiles neverFails"
      "clientOpts\<lparr>ACLEnabled := True, Password := ''s3cret''\<rparr>" "''db:6379''" "[]"
      "\<lparr>pool = 0\<rparr>"
      "snd (NewClient_body (stubEnv noFiles neverFails)
              (clientOpts\<lparr>ACLEnabled := True, Password := ''s3cret''\<rparr>) ''db:6379'' [])"]
  by (simp add: NewClient_def NewClient_body_def newDialer_def newPool_def Do_def
      announceCmd_def masterauthCmd_def stub_defs trace_simps const_defs)

subsection \<open>\<open>Do\<close>\<close>

text \<open>
  Claim C7, as stated, says that \<open>Do\<close> executes within a bounded context. It does not:
  on a pool whose operation fails, \<open>Do\<close> returns the wrapped error, and the one call
  it made to the pool ran under \<open>context.Background()\<close>, which has no deadline.
\<close>

theorem Do_context_counterexample:
  "fst (Do (stubEnv noFiles alwaysFails) \<lparr>pool = 0\<rparr> (Cmd None ''GET'' [''k'']) [])
     = Some (wrapError ''failed to perform action GET, err: EOF'' (Foreign ''EOF''))
   \<and> snd (Do (stubEnv noFiles alwaysFails) \<lparr>pool = 0\<rparr> (Cmd None ''GET'' [''k'']) [])
     = [PoolDo 0 Background (Cmd None ''GET'' [''k'']) (Some ''EOF'')]
   \<and> \<not> list_all boundedOf
         (snd (Do (stubEnv noFiles alwaysFails) \<lparr>pool = 0\<rparr> (Cmd None ''GET'' [''k'']) []))"
  by (simp add: Do_def stub_defs)

text \<open>
  Claim C7, amended. \<open>Do\<close> hands the action to the pool of the client once, under
  \<open>context.Background()\<close>, which has no deadline, and closes nothing. If the pool
  operation succeeds, \<open>Do\<close> returns \<open>nil\<close>. If it fails with an error of message
  \<open>m\<close>, \<open>Do\<close> returns an error that wraps that error and whose message is
  \<open>failed to perform action\<close>, the text of the action, \<open>err:\<close> and \<open>m\<close>. \<open>Do\<close>
  has no other exit.
\<close>

theorem Do_result:
  "\<exists>res. snd (Do E c action t) = t @ [PoolDo (pool c) Background action res]
     \<and> res = radix_Do E t (pool c) Background action
     \<and> \<not> hasDeadline Background
     \<and> closed [PoolDo (pool c) Background action res] = []
     \<and> (res = None \<longrightarrow> fst (Do E c action t) = None)
     \<and> (\<forall>m. res = Some m \<longrightarrow>
           (\<exists>err. fst (Do E c action t) = Some err
              \<and> Unwrap err = Some (Foreign m)
              \<and> Error err = ''failed to perform action '' @ fmt_Action E action
                              @ '', err: '' @ m))"
  by (cases "radix_Do E t (pool c) Background action")
     (simp_all add: Do_def trace_simps)

theorem Do_result_witness:
  "fst (Do (stubEnv noFiles alwaysFails) \<lparr>pool = 0\<rparr> (Cmd None ''GET'' [''k'']) [])
     = Some (wrapError ''failed to perform action GET, err: EOF'' (Foreign ''EOF''))
   \<and> Do (stubEnv noFiles neverFails) \<lparr>pool = 0\<rparr> (Cmd None ''GET'' [''k'']) []
     = (None, [PoolDo 0 Background (Cmd None ''GET'' [''k'']) None])"
  using
    Do_result [of "stubEnv noFiles alwaysFails" "\<lparr>pool = 0\<rparr>" "Cmd None ''GET'' [''k'']" "[]"]
    Do_result [of "stubEnv noFiles neverFails" "\<lparr>pool = 0\<rparr>" "Cmd None ''GET'' [''k'']" "[]"]
  by (simp add: Do_def stub_defs)

subsection \<open>The server name\<close>

text \<open>
  Claim C8. When \<open>createTLSConfig\<close> returns without error, the configuration is not
  \<open>nil\<close>; if \<open>SubjectCommonName\<close> is not empty then \<open>ServerName\<close> is set to it,
  and if it is empty then \<open>ServerName\<close> keeps its zero value, the empty string.
\<close>

theorem createTLSConfig_ServerName:
  assumes "createTLSConfig E opts t = ((cfgp, None), t')"
  shows "\<exists>cfg. cfgp = Some cfg
     \<and> (SubjectCommonName opts \<noteq> '''' \<longrightarrow> ServerName cfg = SubjectCommonName opts)
     \<and> (SubjectCommonName opts = '''' \<longrightarrow> ServerName cfg = '''')"
  using assms
  by (auto simp: createTLSConfig_def AppendCertsFromPEM_def Let_def
      split: sum.splits if_splits)

theorem createTLSConfig_ServerName_witness:
  "createTLSConfig (stubEnv tlsFiles neverFails) tlsOpts []
     = ((Some \<lparr>RootCAs = Some [x509_Certificate ''PEM''],
               Certificates = [tls_Certificate ''CRT'' ''KEY''],
               ServerName = ''store.internal''\<rparr>, None),
        [ReadFile ''ca.pem'' (Inr ''PEM''),
         LoadX509KeyPair ''client.crt'' ''client.key'' (Inr (tls_Certificate ''CRT'' ''KEY''))])
   \<and> createTLSConfig (stubEnv tlsFiles neverFails) (tlsOpts\<lparr>SubjectCommonName := ''''\<rparr>) []
     = ((Some \<lparr>RootCAs = Some [x509_Certificate ''PEM''],
               Certificates = [tls_Certificate ''CRT'' ''KEY''],
               ServerName = ''''\<rparr>, None),
        [ReadFile ''ca.pem'' (Inr ''PEM''),
         LoadX509KeyPair ''client.crt'' ''client.key'' (Inr (tls_Certificate ''CRT'' ''KEY''))])"
  using
    createTLSConfig_ServerName [of "stubEnv tlsFiles neverFails" tlsOpts "[]"
      "fst (fst (createTLSConfig (stubEnv tlsFiles neverFails) tlsOpts []))"
      "snd (createTLSConfig (stubEnv tlsFiles neverFails) tlsOpts [])"]
    createTLSConfig_ServerName [of "stubEnv tlsFiles neverFails"
      "tlsOpts\<lparr>SubjectCommonName := ''''\<rparr>" "[]"
      "fst (fst (createTLSConfig (stubEnv tlsFiles neverFails)
                   (tlsOpts\<lparr>SubjectCommonName := ''''\<rparr>) []))"
      "snd (createTLSConfig (stubEnv tlsFiles neverFails)
              (tlsOpts\<lparr>SubjectCommonName := ''''\<rparr>) [])"]
  by (simp add: createTLSConfig_def AppendCertsFromPEM_def stub_defs)

subsection \<open>The error paths of \<open>createTLSConfig\<close>\<close>

text \<open>
  Claim C9. \<open>createTLSConfig\<close> treats its error paths differently. When the CA file
  cannot be read, and when no certificate is parsed from it, the configuration returned
  is \<open>nil\<close>. When the client certificate and key cannot be loaded, the configuration
  returned with the error is not \<open>nil\<close>: it is the partly built one, with \<open>RootCAs\<close>
  set to the parsed pool and no client certificate.
\<close>

theorem createTLSConfig_error_asymmetry:
  "(os_ReadFile E t (CaCert opts) = Inl m \<longrightarrow>
      fst (createTLSConfig E opts t)
        = (None, Some (wrapError (''failed to read file from '' @ CaCert opts @ '', err: '' @ m)
                         (Foreign m))))
   \<and> (os_ReadFile E t (CaCert opts) = Inr b \<and> x509_parsePEM E b = [] \<longrightarrow>
      fst (createTLSConfig E opts t) = (None, Some errCACertificate))
   \<and> (os_ReadFile E t (CaCert opts) = Inr b \<and> x509_parsePEM E b \<noteq> []
        \<and> tls_LoadX509KeyPair E (t @ [ReadFile (CaCert opts) (Inr b)])
             (ClientCert opts) (ClientKey opts) = Inl m \<longrightarrow>
      fst (createTLSConfig E opts t)
        = (Some \<lparr>RootCAs = Some (x509_parsePEM E b), Certificates = [], ServerName = ''''\<rparr>,
           Some (wrapError (''failed to read and parse key '' @ ClientKey opts @ '' from ''
                              @ ClientCert opts @ '', err: '' @ m) (Foreign m))))"
  by (simp add: createTLSConfig_def AppendCertsFromPEM_def Let_def)

theorem createTLSConfig_error_asymmetry_witness:
  "fst (createTLSConfig (stubEnv noFiles neverFails) tlsOpts [])
     = (None, Some (wrapError ''failed to read file from ca.pem, err: no such file or directory''
                      (Foreign ''no such file or directory'')))
   \<and> fst (createTLSConfig (stubEnv tlsFiles neverFails) (tlsOpts\<lparr>CaCert := ''junk.pem''\<rparr>) [])
     = (None, Some errCACertificate)
   \<and> fst (createTLSConfig (stubEnv tlsFiles neverFails) (tlsOpts\<lparr>ClientKey := ''nokey''\<rparr>) [])
     = (Some \<lparr>RootCAs = Some [x509_Certificate ''PEM''], Certificates = [], ServerName = ''''\<rparr>,
        Some (wrapError
               ''failed to read and parse key nokey from client.crt, err: no such file or directory''
               (Foreign ''no such file or directory'')))"
  using
    createTLSConfig_error_asymmetry [of "stubEnv noFiles neverFails" "[]" tlsOpts
      "''no such file or directory''"]
    createTLSConfig_error_asymmetry [of "stubEnv tlsFiles neverFails" "[]"
      "tlsOpts\<lparr>CaCert := ''junk.pem''\<rparr>" _ "''junk''"]
    createTLSConfig_error_asymmetry [of "stubEnv tlsFiles neverFails" "[]"
      "tlsOpts\<lparr>ClientKey := ''nokey''\<rparr>" "''no such file or directory''" "''PEM''"]
  by (simp add: stub_defs)

subsection \<open>The type assertion\<close>

lemma errors_distinct:
  "errCACertificate \<noteq> errTypeAssertion" "wrapError msg e \<noteq> errTypeAssertion"
  "errTypeAssertion \<noteq> errCACertificate" "errTypeAssertion \<noteq> wrapError msg e"
  by (simp_all add: errCACertificate_def errTypeAssertion_def)

text \<open>
  Claim C10. \<open>errTypeAssertion\<close> is never returned: not by the part of \<open>NewClient\<close>
  that builds the dialer, not by its body at any options value, not by \<open>NewClient\<close>.
  In the TLS branch, once \<open>createTLSConfig\<close> has succeeded, the assertion yields the
  \<open>*net.Dialer\<close> installed just before, and the dialer is wrapped in a
  \<open>*tls.Dialer\<close> around it.
\<close>

theorem NewClient_type_assertion:
  "fst (newDialer E opts t) \<noteq> Inl errTypeAssertion
   \<and> fst (NewClient_body E opts addr t) \<noteq> Inl errTypeAssertion
   \<and> fst (NewClient E addr t) \<noteq> Inl errTypeAssertion
   \<and> (TLSEnabled opts \<and> createTLSConfig E opts t = ((cfg, None), t1) \<longrightarrow>
        newDialer E opts t =
          (Inr \<lparr>AuthUser = Username opts, AuthPass = Password opts,
                NetDialer = tls_Dialer_ptr
                  \<lparr>tls_NetDialer = \<lparr>Timeout = DialConnectTimeout opts\<rparr>,
                   tls_Config = cfg\<rparr>\<rparr>, t1))"
proof -
  have d: "fst (newDialer E opts t) \<noteq> Inl errTypeAssertion" for opts
  proof
    assume a: "fst (newDialer E opts t) = Inl errTypeAssertion"
    then obtain t1 where "newDialer E opts t = (Inl errTypeAssertion, t1)"
      by (metis prod.collapse)
    from newDialer_error [OF this] show False by (auto simp: errors_distinct)
  qed
  have b: "fst (NewClient_body E opts addr t) \<noteq> Inl errTypeAssertion" for opts
  proof
    assume a: "fst (NewClient_body E opts addr t) = Inl errTypeAssertion"
    then obtain t' where r: "NewClient_body E opts addr t = (Inl errTypeAssertion, t')"
      by (metis prod.collapse)
    from r show False
    proof (cases rule: NewClient_body_cases)
      case (dialer_error err)
      with d [of opts] show False by simp
    next
      case (pool dl t1)
      from newPool_error [OF pool(2)] show False by (auto simp: errors_distinct)
    qed
  qed
  show ?thesis using d [of opts] b [of opts] b [of clientOpts]
    by (simp add: NewClient_def newDialer_def)
qed

theorem NewClient_type_assertion_witness:
  "newDialer (stubEnv tlsFiles neverFails) tlsOpts []
     = (Inr \<lparr>AuthUser = '''', AuthPass = '''',
             NetDialer = tls_Dialer_ptr
               \<lparr>tls_NetDialer = \<lparr>Timeout = 10000000000\<rparr>,
                tls_Config = Some \<lparr>RootCAs = Some [x509_Certificate ''PEM''],
                                   Certificates = [tls_Certificate ''CRT'' ''KEY''],
                                   ServerName = ''store.internal''\<rparr>\<rparr>\<rparr>,
        [ReadFile ''ca.pem'' (Inr ''PEM''),
         LoadX509KeyPair ''client.crt'' ''client.key'' (Inr (tls_Certificate ''CRT'' ''KEY''))])"
  using
    NewClient_type_assertion [of "stubEnv tlsFiles neverFails" tlsOpts "[]" "''db:6379''"
      "fst (fst (createTLSConfig (stubEnv tlsFiles neverFails) tlsOpts []))"
      "snd (createTLSConfig (stubEnv tlsFiles neverFails) tlsOpts [])"]
  by (simp add: newDialer_def createTLSConfig_def AppendCertsFromPEM_def stub_defs const_defs)

end
